theory Spec2Isabelle
  imports Complex_Main
begin

section \<open>Responder selection (tasks/SelectUsers/task.py)\<close>

subsection \<open>Numbers\<close>

text \<open>
  A Python float that is either finite or \<open>float('inf')\<close>. Finite floats are read as the
  real numbers they denote (rounding is not modelled), NaN and \<open>-inf\<close> are left out.
  The order is the one Python's \<open><\<close>, \<open>>\<close> and \<open>sorted\<close> use on such values.
\<close>

datatype pyfloat = Fin real | PInf

instantiation pyfloat :: linorder
begin

fun less_eq_pyfloat :: "pyfloat \<Rightarrow> pyfloat \<Rightarrow> bool" where
  "less_eq_pyfloat (Fin a) (Fin b) = (a \<le> b)"
| "less_eq_pyfloat PInf (Fin b) = False"
| "less_eq_pyfloat x PInf = True"

definition less_pyfloat :: "pyfloat \<Rightarrow> pyfloat \<Rightarrow> bool" where
  "less_pyfloat x y = (x \<le> y \<and> \<not> y \<le> x)"

instance
proof
  fix x y z :: pyfloat
  show "(x < y) = (x \<le> y \<and> \<not> y \<le> x)"
    by (simp add: less_pyfloat_def)
  show "x \<le> x"
    by (cases x) simp_all
  show "x \<le> y \<Longrightarrow> y \<le> z \<Longrightarrow> x \<le> z"
    by (cases x; cases y; cases z) simp_all
  show "x \<le> y \<Longrightarrow> y \<le> x \<Longrightarrow> x = y"
    by (cases x; cases y) simp_all
  show "x \<le> y \<or> y \<le> x"
    by (cases x; cases y) auto
qed

end

text \<open>\<open>x / 2\<close> on such a float: \<open>float('inf') / 2\<close> is \<open>float('inf')\<close>.\<close>

fun halve :: "pyfloat \<Rightarrow> pyfloat" where
  "halve (Fin a) = Fin (a / 2)"
| "halve PInf = PInf"

subsection \<open>Data\<close>

type_synonym coord = "real \<times> real"

text \<open>
  The value of \<open>user.get('id', idx)\<close>: the identifier of the user record (an integer, a
  string, or \<open>None\<close> for an \<open>id\<close> that is present and null) or the position in the list.
\<close>

datatype user_key = IntKey int | StrKey string | NoneKey

text \<open>
  A user record as the selection reads it. For \<open>latitude\<close>, \<open>longitude\<close> and
  \<open>status\<close>, \<open>None\<close> is what \<open>dict.get\<close> returns for a missing key and for a JSON
  null. For \<open>uid\<close> (the key \<open>id\<close>) and \<open>available\<close>, which are read with a default,
  \<open>None\<close> is a missing key only: a null \<open>id\<close> is \<open>Some NoneKey\<close>, and a present
  \<open>available\<close> of truthiness \<open>b\<close> is \<open>Some b\<close>.
\<close>

record user =
  uid :: "user_key option"
  latitude :: "real option"
  longitude :: "real option"
  status :: "string option"
  available :: "bool option"

text \<open>The attributes of \<open>TaskSelectUsers\<close>, set by \<open>__init__\<close>.\<close>

record task_select_users =
  osrm_url :: string
  selection_diameter_km :: "pyfloat option"
  user_profile_selection :: "string option"
  filter_only_available :: bool
  sort_by :: string
  osrm_timeout_s :: int
  euclidian_filter_km :: "pyfloat option"

text \<open>
  What the routing service sends back: the JSON body with its list of routes, each with a
  distance in metres and a duration in seconds. \<open>RequestFailed\<close> stands for every
  exception of the request itself (network error, timeout, HTTP error status, a body that
  is not JSON).
\<close>

record route =
  distance :: real
  duration :: real

record osrm_response =
  code :: string
  routes :: "route list"

datatype http_outcome = RequestFailed | Json osrm_response

text \<open>
  Everything outside the program that a run reads: the user file (\<open>None\<close> when it cannot
  be loaded), the outcome of the routing request issued while the user at a given position
  is processed, and the clock differences the run measures.
\<close>

record world =
  users_file :: "user list option"
  requests_get :: "nat \<Rightarrow> string option \<Rightarrow> coord \<Rightarrow> coord \<Rightarrow> http_outcome"
  user_elapsed :: "nat \<Rightarrow> real"
  total_elapsed :: real

type_synonym candidate = "user \<times> pyfloat \<times> pyfloat \<times> osrm_response option"

text \<open>The local variables of \<open>select_nearest_available_users\<close> that the loop updates.\<close>

record locals =
  candidates :: "candidate list"
  osrm_results_map :: "user_key \<rightharpoonup> pyfloat \<times> pyfloat"
  osrm_response_values :: "(string \<times> osrm_response) list"
  user_computation_times :: "user_key \<rightharpoonup> real"
  status_filtered :: nat
  haversine_filtered :: nat
  diameter_filtered :: nat
  osrm_errors :: nat
  invalid_coordinates :: nat

text \<open>The \<open>filtering_metrics\<close> dictionary, one field per key.\<close>

record filtering_metrics =
  fm_total_users :: nat
  fm_invalid_coordinates :: nat
  fm_status_filtered :: nat
  fm_haversine_filtered :: nat
  fm_osrm_errors :: nat
  fm_diameter_filtered :: nat
  fm_candidates :: nat
  fm_selected :: nat

type_synonym selection =
  "user list \<times> (user_key \<rightharpoonup> pyfloat \<times> pyfloat) \<times> (string \<times> osrm_response) list
     \<times> real \<times> (user_key \<rightharpoonup> real) \<times> filtering_metrics"

subsection \<open>Operations\<close>

text \<open>\<open>get_all_users\<close>: the loaded list, or the empty list when loading raises.\<close>

definition get_all_users :: "world \<Rightarrow> user list" where
  "get_all_users w = (case users_file w of None \<Rightarrow> [] | Some us \<Rightarrow> us)"

definition radians :: "real \<Rightarrow> real" where
  "radians x = x * pi / 180"

definition atan2 :: "real \<Rightarrow> real \<Rightarrow> real" where
  "atan2 y x =
     (if 0 < x then arctan (y / x)
      else if x < 0 then (if 0 \<le> y then arctan (y / x) + pi else arctan (y / x) - pi)
      else if 0 < y then pi / 2
      else if y < 0 then - pi / 2
      else 0)"

text \<open>
  \<open>haversine_distance\<close>, over the reals: the source computes the same expression in
  floating point.
\<close>

definition haversine_distance :: "coord \<Rightarrow> coord \<Rightarrow> real" where
  "haversine_distance loc1 loc2 =
     (let R = 6371;
          lat1 = radians (fst loc1); lon1 = radians (snd loc1);
          lat2 = radians (fst loc2); lon2 = radians (snd loc2);
          dlat = lat2 - lat1;
          dlon = lon2 - lon1;
          a = (sin (dlat / 2))\<^sup>2 + cos lat1 * cos lat2 * (sin (dlon / 2))\<^sup>2;
          c = 2 * atan2 (sqrt a) (sqrt (1 - a))
      in R * c)"

text \<open>
  \<open>calculate_distance\<close>: any exception of the request, and a reply without a first route,
  gives \<open>(inf, inf, {})\<close>; the empty dictionary is \<open>None\<close> here.
\<close>

definition calculate_distance ::
  "task_select_users \<Rightarrow> world \<Rightarrow> nat \<Rightarrow> coord \<Rightarrow> coord
     \<Rightarrow> pyfloat \<times> pyfloat \<times> osrm_response option" where
  "calculate_distance self w idx loc1 loc2 =
     (case requests_get w idx (user_profile_selection self) loc1 loc2 of
        RequestFailed \<Rightarrow> (PInf, PInf, None)
      | Json full_response \<Rightarrow>
          (case routes full_response of
             [] \<Rightarrow> (PInf, PInf, None)
           | data # _ \<Rightarrow> (Fin (distance data / 1000), Fin (duration data), Some full_response)))"

text \<open>
  Python's \<open>str\<close> on a key: decimal digits for an integer, the string itself for a string,
  \<open>'None'\<close> for \<open>None\<close>.
\<close>

fun digits :: "nat \<Rightarrow> string" where
  "digits n =
     (if n < 10 then [''0123456789'' ! n]
      else digits (n div 10) @ [''0123456789'' ! (n mod 10)])"

definition py_str :: "user_key \<Rightarrow> string" where
  "py_str k =
     (case k of
        StrKey s \<Rightarrow> s
      | IntKey i \<Rightarrow> (if i < 0 then CHR ''-'' # digits (nat (- i)) else digits (nat i))
      | NoneKey \<Rightarrow> ''None'')"

text \<open>\<open>user.get('available', True)\<close>, as a truth value.\<close>

definition get_available :: "user \<Rightarrow> bool" where
  "get_available u = (case available u of None \<Rightarrow> True | Some b \<Rightarrow> b)"

text \<open>The body of the loop over \<open>enumerate(users)\<close>; each \<open>continue\<close> is a branch.\<close>

definition loop_body ::
  "task_select_users \<Rightarrow> world \<Rightarrow> coord \<Rightarrow> nat \<Rightarrow> user \<Rightarrow> locals \<Rightarrow> locals" where
  "loop_body self w alert_location idx u s =
     (case (latitude u, longitude u) of
        (Some lat, Some lon) \<Rightarrow>
          (let loc = (lat, lon) in
           if status u \<noteq> user_profile_selection self
           then s\<lparr>status_filtered := status_filtered s + 1\<rparr>
           else if (case euclidian_filter_km self of
                      None \<Rightarrow> False
                    | Some km \<Rightarrow> km < Fin (haversine_distance alert_location loc))
           then s\<lparr>haversine_filtered := haversine_filtered s + 1\<rparr>
           else
             (case calculate_distance self w idx alert_location loc of
                (distance_km, duration_s, full_response) \<Rightarrow>
                  (let s1 = (if distance_km = PInf \<or> duration_s = PInf
                             then s\<lparr>osrm_errors := osrm_errors s + 1\<rparr> else s);
                       user_key = (case uid u of Some k \<Rightarrow> k | None \<Rightarrow> IntKey (int idx));
                       s2 = s1\<lparr>osrm_results_map :=
                                  (osrm_results_map s1)(user_key \<mapsto> (distance_km, duration_s)),
                                user_computation_times :=
                                  (user_computation_times s1)(user_key \<mapsto> user_elapsed w idx)\<rparr>;
                       s3 = (case full_response of
                               None \<Rightarrow> s2
                             | Some r \<Rightarrow>
                                 s2\<lparr>osrm_response_values :=
                                      osrm_response_values s2 @ [(py_str user_key, r)]\<rparr>)
                   in if (case selection_diameter_km self of
                            None \<Rightarrow> False
                          | Some d \<Rightarrow> halve d < distance_km)
                      then s3\<lparr>diameter_filtered := diameter_filtered s3 + 1\<rparr>
                      else s3\<lparr>candidates :=
                                candidates s3 @ [(u, distance_km, duration_s, full_response)]\<rparr>)))
      | _ \<Rightarrow> s\<lparr>invalid_coordinates := invalid_coordinates s + 1\<rparr>)"

fun users_loop ::
  "task_select_users \<Rightarrow> world \<Rightarrow> coord \<Rightarrow> nat \<Rightarrow> user list \<Rightarrow> locals \<Rightarrow> locals" where
  "users_loop self w alert_location idx [] s = s"
| "users_loop self w alert_location idx (u # us) s =
     users_loop self w alert_location (Suc idx) us (loop_body self w alert_location idx u s)"

definition initial_locals :: locals where
  "initial_locals =
     \<lparr>candidates = [], osrm_results_map = Map.empty, osrm_response_values = [],
      user_computation_times = Map.empty, status_filtered = 0, haversine_filtered = 0,
      diameter_filtered = 0, osrm_errors = 0, invalid_coordinates = 0\<rparr>"

text \<open>The sort: by the third component for \<open>'travel_time'\<close>, by the second otherwise.\<close>

definition sorted_candidates :: "task_select_users \<Rightarrow> candidate list \<Rightarrow> candidate list" where
  "sorted_candidates self cs =
     (if sort_by self = ''travel_time''
      then sort_key (\<lambda>x. fst (snd (snd x))) cs
      else sort_key (\<lambda>x. fst (snd x)) cs)"

text \<open>The loop that fills \<open>selected\<close>; the \<open>break\<close> is tested after the append.\<close>

fun selection_loop ::
  "task_select_users \<Rightarrow> int \<Rightarrow> candidate list \<Rightarrow> user list \<Rightarrow> user list" where
  "selection_loop self num_users [] selected = selected"
| "selection_loop self num_users ((u, dist_km, dur_s, full_resp) # rest) selected =
     (if filter_only_available self \<and> \<not> get_available u
      then selection_loop self num_users rest selected
      else (let selected' = selected @ [u]
            in if num_users \<le> int (length selected') then selected'
               else selection_loop self num_users rest selected'))"

definition select_nearest_available_users ::
  "task_select_users \<Rightarrow> world \<Rightarrow> coord \<Rightarrow> int \<Rightarrow> selection" where
  "select_nearest_available_users self w alert_location num_users =
     (let users = get_all_users w;
          s = users_loop self w alert_location 0 users initial_locals;
          sorted_list = sorted_candidates self (candidates s);
          selected = selection_loop self num_users sorted_list [];
          metrics = \<lparr>fm_total_users = length users,
                     fm_invalid_coordinates = invalid_coordinates s,
                     fm_status_filtered = status_filtered s,
                     fm_haversine_filtered = haversine_filtered s,
                     fm_osrm_errors = osrm_errors s,
                     fm_diameter_filtered = diameter_filtered s,
                     fm_candidates = length (candidates s),
                     fm_selected = length selected\<rparr>
      in (selected, osrm_results_map s, osrm_response_values s, total_elapsed w,
          user_computation_times s, metrics))"

text \<open>The six components of the returned tuple.\<close>

definition out_selected :: "selection \<Rightarrow> user list" where
  "out_selected r = fst r"

definition out_results_map :: "selection \<Rightarrow> (user_key \<rightharpoonup> pyfloat \<times> pyfloat)" where
  "out_results_map r = fst (snd r)"

definition out_response_values :: "selection \<Rightarrow> (string \<times> osrm_response) list" where
  "out_response_values r = fst (snd (snd r))"

definition out_total_time :: "selection \<Rightarrow> real" where
  "out_total_time r = fst (snd (snd (snd r)))"

definition out_times :: "selection \<Rightarrow> (user_key \<rightharpoonup> real)" where
  "out_times r = fst (snd (snd (snd (snd r))))"

definition out_metrics :: "selection \<Rightarrow> filtering_metrics" where
  "out_metrics r = snd (snd (snd (snd (snd r))))"

subsection \<open>The stages of the pipeline\<close>

text \<open>The pair \<open>loc = (lat, lon)\<close> of a user whose coordinates are present.\<close>

definition location :: "user \<Rightarrow> coord" where
  "location u = (the (latitude u), the (longitude u))"

text \<open>Stage 1: both coordinates are present.\<close>

definition passes_coordinates :: "user \<Rightarrow> bool" where
  "passes_coordinates u = (latitude u \<noteq> None \<and> longitude u \<noteq> None)"

text \<open>Stage 2: the status equals the profile (\<open>!=\<close> on two optional strings).\<close>

definition passes_status :: "task_select_users \<Rightarrow> user \<Rightarrow> bool" where
  "passes_status self u = (status u = user_profile_selection self)"

text \<open>Stage 3: no straight-line threshold, or the haversine distance does not exceed it.\<close>

definition passes_prefilter :: "task_select_users \<Rightarrow> coord \<Rightarrow> user \<Rightarrow> bool" where
  "passes_prefilter self alert_location u =
     (case euclidian_filter_km self of
        None \<Rightarrow> True
      | Some km \<Rightarrow> Fin (haversine_distance alert_location (location u)) \<le> km)"

text \<open>A user reaches the routing request when it passes stages 1 to 3.\<close>

definition reaches_scoring :: "task_select_users \<Rightarrow> coord \<Rightarrow> user \<Rightarrow> bool" where
  "reaches_scoring self alert_location u =
     (passes_coordinates u \<and> passes_status self u \<and> passes_prefilter self alert_location u)"

text \<open>\<open>user.get('id', idx)\<close>.\<close>

definition key_of :: "nat \<Rightarrow> user \<Rightarrow> user_key" where
  "key_of idx u = (case uid u of Some k \<Rightarrow> k | None \<Rightarrow> IntKey (int idx))"

text \<open>The result of \<open>calculate_distance\<close> for the user at a position.\<close>

definition scored ::
  "task_select_users \<Rightarrow> world \<Rightarrow> coord \<Rightarrow> nat \<times> user \<Rightarrow> pyfloat \<times> pyfloat \<times> osrm_response option" where
  "scored self w alert_location p =
     calculate_distance self w (fst p) alert_location (location (snd p))"

text \<open>Stage 5: a diameter is set and the distance is greater than half of it.\<close>

definition diameter_rejects :: "task_select_users \<Rightarrow> pyfloat \<Rightarrow> bool" where
  "diameter_rejects self distance_km =
     (case selection_diameter_km self of None \<Rightarrow> False | Some d \<Rightarrow> halve d < distance_km)"

text \<open>A user becomes a candidate when it reaches the routing request and stage 5 keeps it.\<close>

definition kept :: "task_select_users \<Rightarrow> world \<Rightarrow> coord \<Rightarrow> nat \<times> user \<Rightarrow> bool" where
  "kept self w alert_location p =
     (reaches_scoring self alert_location (snd p)
      \<and> \<not> diameter_rejects self (fst (scored self w alert_location p)))"

text \<open>The local variables when the loop over the users has finished.\<close>

definition final_locals :: "task_select_users \<Rightarrow> world \<Rightarrow> coord \<Rightarrow> locals" where
  "final_locals self w alert_location =
     users_loop self w alert_location 0 (get_all_users w) initial_locals"

text \<open>The availability test of the final loop.\<close>

definition passes_availability :: "task_select_users \<Rightarrow> candidate \<Rightarrow> bool" where
  "passes_availability self c = (\<not> filter_only_available self \<or> get_available (fst c))"

text \<open>The candidates behind \<open>selected\<close>: the first entries of the sorted list that pass the availability test; at least one is taken, since the length is tested after the append.\<close>

definition selected_entries :: "task_select_users \<Rightarrow> int \<Rightarrow> candidate list \<Rightarrow> candidate list" where
  "selected_entries self num_users cs =
     take (nat (max 1 num_users)) (filter (passes_availability self) (sorted_candidates self cs))"

subsection \<open>Example run\<close>

text \<open>Example data: an alert, six users and the replies of the routing service.\<close>

definition alert :: coord where
  "alert = (48.8, 1.97)"

definition reply :: "real \<Rightarrow> real \<Rightarrow> osrm_response" where
  "reply m sec = \<lparr>code = ''Ok'', routes = [\<lparr>distance = m, duration = sec\<rparr>]\<rparr>"

definition user_a :: user where
  "user_a = \<lparr>uid = Some (StrKey ''A''), latitude = Some 48.81, longitude = Some 1.98,
             status = Some ''driving'', available = Some True\<rparr>"

definition user_b :: user where
  "user_b = \<lparr>uid = Some (StrKey ''B''), latitude = Some 48.79, longitude = Some 1.96,
             status = Some ''driving'', available = None\<rparr>"

definition user_c :: user where
  "user_c = \<lparr>uid = None, latitude = Some 48.8, longitude = Some 1.975,
             status = Some ''driving'', available = Some False\<rparr>"

definition user_d :: user where
  "user_d = \<lparr>uid = Some (IntKey 7), latitude = Some 48.7, longitude = Some 1.9,
             status = Some ''walking'', available = Some True\<rparr>"

definition user_e :: user where
  "user_e = \<lparr>uid = Some (StrKey ''E''), latitude = None, longitude = Some 1.9,
             status = Some ''driving'', available = Some True\<rparr>"

definition user_f :: user where
  "user_f = \<lparr>uid = Some (StrKey ''F''), latitude = Some 48.9, longitude = Some 2.1,
             status = Some ''driving'', available = Some True\<rparr>"

definition demo_users :: "user list" where
  "demo_users = [user_a, user_b, user_c, user_d, user_e, user_f]"

definition demo_world :: world where
  "demo_world =
     \<lparr>users_file = Some demo_users,
      requests_get = (\<lambda>idx profile loc1 loc2.
         if idx = 0 then Json (reply 5000 300)
         else if idx = 1 then Json (reply 2000 600)
         else if idx = 2 then Json (reply 1000 100)
         else RequestFailed),
      user_elapsed = (\<lambda>idx. 1 / 4),
      total_elapsed = 2\<rparr>"

definition demo_task :: task_select_users where
  "demo_task =
     \<lparr>osrm_url = ''http://osrm.example'', selection_diameter_km = Some (Fin 10),
      user_profile_selection = Some ''driving'', filter_only_available = True,
      sort_by = ''distance'', osrm_timeout_s = 5, euclidian_filter_km = None\<rparr>"

subsection \<open>Ranking\<close>

text \<open>The components of a candidate tuple \<open>(user, distance_km, duration_s, full_response)\<close>.\<close>

definition cand_user :: "candidate \<Rightarrow> user" where
  "cand_user c = fst c"

definition cand_distance_km :: "candidate \<Rightarrow> pyfloat" where
  "cand_distance_km c = fst (snd c)"

definition cand_duration_s :: "candidate \<Rightarrow> pyfloat" where
  "cand_duration_s c = fst (snd (snd c))"

text \<open>The key the candidates are sorted by.\<close>

definition ranking_key :: "task_select_users \<Rightarrow> candidate \<Rightarrow> pyfloat" where
  "ranking_key self =
     (if sort_by self = ''travel_time'' then cand_duration_s else cand_distance_km)"

text \<open>
  The routing request for the user at a position fails: the request raises, or the reply
  has no first route.
\<close>

definition oracle_call_fails ::
  "task_select_users \<Rightarrow> world \<Rightarrow> coord \<Rightarrow> nat \<times> user \<Rightarrow> bool" where
  "oracle_call_fails self w alert_location p =
     (case requests_get w (fst p) (user_profile_selection self) alert_location
             (location (snd p)) of
        RequestFailed \<Rightarrow> True
      | Json full_response \<Rightarrow> routes full_response = [])"

subsection \<open>Entries of the result maps\<close>

text \<open>
  What the loop stores for a user that reaches the routing request: the entry of the result
  map and the entry of the time map, each under \<open>user_key\<close>.
\<close>

definition result_entry ::
  "task_select_users \<Rightarrow> world \<Rightarrow> coord \<Rightarrow> nat \<times> user \<Rightarrow> user_key \<times> pyfloat \<times> pyfloat" where
  "result_entry self w alert_location p =
     (key_of (fst p) (snd p),
      fst (scored self w alert_location p), fst (snd (scored self w alert_location p)))"

definition time_entry :: "world \<Rightarrow> nat \<times> user \<Rightarrow> user_key \<times> real" where
  "time_entry w p = (key_of (fst p) (snd p), user_elapsed w (fst p))"

text \<open>The users that reach the routing request, with their positions, in input order.\<close>

definition reached_users ::
  "task_select_users \<Rightarrow> world \<Rightarrow> coord \<Rightarrow> (nat \<times> user) list" where
  "reached_users self w alert_location =
     filter (\<lambda>p. reaches_scoring self alert_location (snd p)) (enumerate 0 (get_all_users w))"

subsection \<open>Example run without a finite diameter\<close>



text \<open>The same world with the availability flag of every user replaced.\<close>

definition with_availability :: "(user \<Rightarrow> bool option) \<Rightarrow> world \<Rightarrow> world" where
  "with_availability g w =
     w\<lparr>users_file := map_option (map (\<lambda>u. u\<lparr>available := g u\<rparr>)) (users_file w)\<rparr>"

text \<open>The example configuration without the availability test.\<close>

definition demo_task_any_availability :: task_select_users where
  "demo_task_any_availability = demo_task\<lparr>filter_only_available := False\<rparr>"

text \<open>The example world when the user file cannot be loaded, and with an empty user file.\<close>

definition demo_world_unloaded :: world where
  "demo_world_unloaded = demo_world\<lparr>users_file := None\<rparr>"

definition demo_world_empty :: world where
  "demo_world_empty = demo_world\<lparr>users_file := Some []\<rparr>"




section \<open>Properties\<close>

subsection \<open>The loop body and the loop\<close>

lemmas stage_defs = location_def passes_coordinates_def passes_status_def passes_prefilter_def
  reaches_scoring_def key_of_def scored_def diameter_rejects_def kept_def

lemma loop_body_candidates:
  "candidates (loop_body self w a i u s) =
     candidates s @ (if kept self w a (i, u) then [(u, scored self w a (i, u))] else [])"
  by (auto simp: loop_body_def stage_defs Let_def not_less split: option.splits prod.splits)

lemma loop_body_invalid:
  "invalid_coordinates (loop_body self w a i u s) =
     invalid_coordinates s + (if passes_coordinates u then 0 else 1)"
  by (auto simp: loop_body_def stage_defs Let_def split: option.splits prod.splits)

lemma loop_body_status:
  "status_filtered (loop_body self w a i u s) =
     status_filtered s + (if passes_coordinates u \<and> \<not> passes_status self u then 1 else 0)"
  by (auto simp: loop_body_def stage_defs Let_def split: option.splits prod.splits)

lemma loop_body_haversine:
  "haversine_filtered (loop_body self w a i u s) =
     haversine_filtered s +
       (if passes_coordinates u \<and> passes_status self u \<and> \<not> passes_prefilter self a u then 1 else 0)"
  by (auto simp: loop_body_def stage_defs Let_def not_less split: option.splits prod.splits)

lemma loop_body_diameter:
  "diameter_filtered (loop_body self w a i u s) =
     diameter_filtered s +
       (if reaches_scoring self a u \<and> diameter_rejects self (fst (scored self w a (i, u)))
        then 1 else 0)"
  by (auto simp: loop_body_def stage_defs Let_def not_less split: option.splits prod.splits)

lemma loop_body_errors:
  "osrm_errors (loop_body self w a i u s) =
     osrm_errors s +
       (if reaches_scoring self a u \<and>
           (fst (scored self w a (i, u)) = PInf \<or> fst (snd (scored self w a (i, u))) = PInf)
        then 1 else 0)"
  by (auto simp: loop_body_def stage_defs Let_def not_less split: option.splits prod.splits)

lemma loop_body_results_map:
  "osrm_results_map (loop_body self w a i u s) =
     (if reaches_scoring self a u
      then (osrm_results_map s)(key_of i u \<mapsto>
             (fst (scored self w a (i, u)), fst (snd (scored self w a (i, u)))))
      else osrm_results_map s)"
  by (auto simp: loop_body_def stage_defs Let_def not_less split: option.splits prod.splits)

lemma loop_body_times:
  "user_computation_times (loop_body self w a i u s) =
     (if reaches_scoring self a u
      then (user_computation_times s)(key_of i u \<mapsto> user_elapsed w i)
      else user_computation_times s)"
  by (auto simp: loop_body_def stage_defs Let_def not_less split: option.splits prod.splits)

lemma loop_body_response_values:
  "osrm_response_values (loop_body self w a i u s) =
     osrm_response_values s @
       (if reaches_scoring self a u
        then (case snd (snd (scored self w a (i, u))) of
                None \<Rightarrow> [] | Some r \<Rightarrow> [(py_str (key_of i u), r)])
        else [])"
  by (auto simp: loop_body_def stage_defs Let_def not_less split: option.splits prod.splits)

lemma users_loop_candidates:
  "candidates (users_loop self w a i us s) =
     candidates s @ map (\<lambda>p. (snd p, scored self w a p)) (filter (kept self w a) (enumerate i us))"
  by (induction us arbitrary: i s) (simp_all add: loop_body_candidates)

lemma users_loop_invalid:
  "invalid_coordinates (users_loop self w a i us s) =
     invalid_coordinates s + length (filter (\<lambda>p. \<not> passes_coordinates (snd p)) (enumerate i us))"
  by (induction us arbitrary: i s) (simp_all add: loop_body_invalid)

lemma users_loop_status:
  "status_filtered (users_loop self w a i us s) =
     status_filtered s +
       length (filter (\<lambda>p. passes_coordinates (snd p) \<and> \<not> passes_status self (snd p)) (enumerate i us))"
  by (induction us arbitrary: i s) (simp_all add: loop_body_status)

lemma users_loop_haversine:
  "haversine_filtered (users_loop self w a i us s) =
     haversine_filtered s +
       length (filter (\<lambda>p. passes_coordinates (snd p) \<and> passes_status self (snd p)
                            \<and> \<not> passes_prefilter self a (snd p)) (enumerate i us))"
  by (induction us arbitrary: i s) (simp_all add: loop_body_haversine)

lemma users_loop_diameter:
  "diameter_filtered (users_loop self w a i us s) =
     diameter_filtered s +
       length (filter (\<lambda>p. reaches_scoring self a (snd p)
                            \<and> diameter_rejects self (fst (scored self w a p))) (enumerate i us))"
  by (induction us arbitrary: i s) (simp_all add: loop_body_diameter)

lemma users_loop_errors:
  "osrm_errors (users_loop self w a i us s) =
     osrm_errors s +
       length (filter (\<lambda>p. reaches_scoring self a (snd p)
                            \<and> (fst (scored self w a p) = PInf \<or> fst (snd (scored self w a p)) = PInf))
                 (enumerate i us))"
  by (induction us arbitrary: i s) (simp_all add: loop_body_errors)

lemma users_loop_tally:
  "invalid_coordinates (users_loop self w a i us s) + status_filtered (users_loop self w a i us s)
     + haversine_filtered (users_loop self w a i us s) + diameter_filtered (users_loop self w a i us s)
     + length (candidates (users_loop self w a i us s)) =
   invalid_coordinates s + status_filtered s + haversine_filtered s + diameter_filtered s
     + length (candidates s) + length us"
proof (induction us arbitrary: i s)
  case Nil
  show ?case by simp
next
  case (Cons u us)
  have step: "invalid_coordinates (loop_body self w a i u s) + status_filtered (loop_body self w a i u s)
     + haversine_filtered (loop_body self w a i u s) + diameter_filtered (loop_body self w a i u s)
     + length (candidates (loop_body self w a i u s)) =
     Suc (invalid_coordinates s + status_filtered s + haversine_filtered s + diameter_filtered s
     + length (candidates s))"
    by (simp add: loop_body_invalid loop_body_status loop_body_haversine loop_body_diameter
        loop_body_candidates kept_def reaches_scoring_def)
  show ?case
    using Cons.IH [of "Suc i" "loop_body self w a i u s"] step by simp
qed

lemma users_loop_results_dom:
  "dom (osrm_results_map (users_loop self w a i us s)) =
     dom (osrm_results_map s) \<union>
       set (map (\<lambda>p. key_of (fst p) (snd p))
              (filter (\<lambda>p. reaches_scoring self a (snd p)) (enumerate i us)))"
proof (induction us arbitrary: i s)
  case Nil
  show ?case by simp
next
  case (Cons u us)
  show ?case
  proof (cases "reaches_scoring self a u")
    case True
    then have "dom (osrm_results_map (loop_body self w a i u s)) =
        insert (key_of i u) (dom (osrm_results_map s))"
      by (simp add: loop_body_results_map)
    with True Cons.IH [of "Suc i" "loop_body self w a i u s"] show ?thesis
      by simp
  next
    case False
    then have "osrm_results_map (loop_body self w a i u s) = osrm_results_map s"
      by (simp add: loop_body_results_map)
    with False Cons.IH [of "Suc i" "loop_body self w a i u s"] show ?thesis
      by simp
  qed
qed

lemma users_loop_times_dom:
  "dom (user_computation_times (users_loop self w a i us s)) =
     dom (user_computation_times s) \<union>
       set (map (\<lambda>p. key_of (fst p) (snd p))
              (filter (\<lambda>p. reaches_scoring self a (snd p)) (enumerate i us)))"
proof (induction us arbitrary: i s)
  case Nil
  show ?case by simp
next
  case (Cons u us)
  show ?case
  proof (cases "reaches_scoring self a u")
    case True
    then have "dom (user_computation_times (loop_body self w a i u s)) =
        insert (key_of i u) (dom (user_computation_times s))"
      by (simp add: loop_body_times)
    with True Cons.IH [of "Suc i" "loop_body self w a i u s"] show ?thesis
      by simp
  next
    case False
    then have "user_computation_times (loop_body self w a i u s) = user_computation_times s"
      by (simp add: loop_body_times)
    with False Cons.IH [of "Suc i" "loop_body self w a i u s"] show ?thesis
      by simp
  qed
qed

lemma users_loop_response_values:
  "osrm_response_values (users_loop self w a i us s) =
     osrm_response_values s @
       concat (map (\<lambda>p. case snd (snd (scored self w a p)) of
                            None \<Rightarrow> [] | Some r \<Rightarrow> [(py_str (key_of (fst p) (snd p)), r)])
                 (filter (\<lambda>p. reaches_scoring self a (snd p)) (enumerate i us)))"
  by (induction us arbitrary: i s)
    (simp_all add: loop_body_response_values split: option.splits)

lemma selection_loop_eq:
  "selection_loop self n cs sel =
     sel @ map fst (take (nat (max 1 (n - int (length sel)))) (filter (passes_availability self) cs))"
proof (induction self n cs sel rule: selection_loop.induct)
  case (1 self n sel)
  show ?case by simp
next
  case (2 self n u d t r rest sel)
  show ?case
  proof (cases "filter_only_available self \<and> \<not> get_available u")
    case True
    with 2 show ?thesis by (simp add: passes_availability_def)
  next
    case False
    note ok = this
    show ?thesis
    proof (cases "n \<le> int (length (sel @ [u]))")
      case True
      then have "max 1 (n - int (length sel)) = 1" by simp
      then have "nat (max 1 (n - int (length sel))) = Suc 0" by simp
      with ok True show ?thesis by (auto simp add: passes_availability_def)
    next
      case False
      then have "max 1 (n - int (length sel)) = n - int (length sel)"
        and "max 1 (n - int (length (sel @ [u]))) = n - int (length (sel @ [u]))"
        by simp_all
      then have "nat (max 1 (n - int (length sel))) = Suc (nat (max 1 (n - int (length (sel @ [u])))))"
        using False by simp
      with ok False 2(2)[OF ok refl False] show ?thesis
        by (auto simp add: passes_availability_def)
    qed
  qed
qed

lemmas demo_defs = alert_def reply_def user_a_def user_b_def user_c_def user_d_def user_e_def
  user_f_def demo_users_def demo_world_def demo_task_def

lemma demo_final_locals:
  "final_locals demo_task demo_world alert =
     \<lparr>candidates = [(user_a, Fin 5, Fin 300, Some (reply 5000 300)),
                    (user_b, Fin 2, Fin 600, Some (reply 2000 600)),
                    (user_c, Fin 1, Fin 100, Some (reply 1000 100))],
      osrm_results_map = [StrKey ''A'' \<mapsto> (Fin 5, Fin 300), StrKey ''B'' \<mapsto> (Fin 2, Fin 600),
                          IntKey 2 \<mapsto> (Fin 1, Fin 100), StrKey ''F'' \<mapsto> (PInf, PInf)],
      osrm_response_values = [(''A'', reply 5000 300), (''B'', reply 2000 600), (''2'', reply 1000 100)],
      user_computation_times = [StrKey ''A'' \<mapsto> 1 / 4, StrKey ''B'' \<mapsto> 1 / 4,
                                IntKey 2 \<mapsto> 1 / 4, StrKey ''F'' \<mapsto> 1 / 4],
      status_filtered = 1, haversine_filtered = 0, diameter_filtered = 1, osrm_errors = 1,
      invalid_coordinates = 1\<rparr>"
  by (simp add: final_locals_def get_all_users_def initial_locals_def loop_body_def
      calculate_distance_def py_str_def less_pyfloat_def Let_def demo_defs)

lemma demo_selected:
  "out_selected (select_nearest_available_users demo_task demo_world alert 2) = [user_b, user_a]"
  using demo_final_locals
  by (simp add: select_nearest_available_users_def out_selected_def final_locals_def Let_def
      sorted_candidates_def get_available_def demo_task_def user_a_def user_b_def user_c_def)


subsection \<open>The returned tuple\<close>

lemma out_metrics_eq:
  "out_metrics (select_nearest_available_users self w a n) =
     \<lparr>fm_total_users = length (get_all_users w),
      fm_invalid_coordinates = invalid_coordinates (final_locals self w a),
      fm_status_filtered = status_filtered (final_locals self w a),
      fm_haversine_filtered = haversine_filtered (final_locals self w a),
      fm_osrm_errors = osrm_errors (final_locals self w a),
      fm_diameter_filtered = diameter_filtered (final_locals self w a),
      fm_candidates = length (candidates (final_locals self w a)),
      fm_selected = length (selected_entries self n (candidates (final_locals self w a)))\<rparr>"
  by (simp add: select_nearest_available_users_def out_metrics_def final_locals_def Let_def
      selection_loop_eq selected_entries_def)

lemma out_selected_eq:
  "out_selected (select_nearest_available_users self w a n) =
     map fst (selected_entries self n (candidates (final_locals self w a)))"
  by (simp add: select_nearest_available_users_def out_selected_def final_locals_def Let_def
      selection_loop_eq selected_entries_def)

lemma out_results_map_eq:
  "out_results_map (select_nearest_available_users self w a n) =
     osrm_results_map (final_locals self w a)"
  by (simp add: select_nearest_available_users_def out_results_map_def final_locals_def Let_def)

lemma out_response_values_eq:
  "out_response_values (select_nearest_available_users self w a n) =
     osrm_response_values (final_locals self w a)"
  by (simp add: select_nearest_available_users_def out_response_values_def final_locals_def
      Let_def)

lemma out_times_eq:
  "out_times (select_nearest_available_users self w a n) =
     user_computation_times (final_locals self w a)"
  by (simp add: select_nearest_available_users_def out_times_def final_locals_def Let_def)

lemma out_total_time_eq:
  "out_total_time (select_nearest_available_users self w a n) = total_elapsed w"
  by (simp add: select_nearest_available_users_def out_total_time_def Let_def)

lemma length_filter_conj_split:
  "length (filter (\<lambda>x. P x \<and> Q x) xs) + length (filter (\<lambda>x. P x \<and> \<not> Q x) xs) =
     length (filter P xs)"
  by (induction xs) simp_all

lemma length_filter_mono:
  "(\<And>x. P x \<Longrightarrow> Q x) \<Longrightarrow> length (filter P xs) \<le> length (filter Q xs)"
  by (induction xs) auto

lemma final_errors_bound:
  "osrm_errors (final_locals self w a) \<le>
     diameter_filtered (final_locals self w a) + length (candidates (final_locals self w a))"
proof -
  let ?E = "enumerate 0 (get_all_users w)"
  let ?R = "\<lambda>p. reaches_scoring self a (snd p)"
  let ?D = "\<lambda>p. diameter_rejects self (fst (scored self w a p))"
  have "osrm_errors (final_locals self w a) \<le> length (filter ?R ?E)"
    by (auto simp: final_locals_def users_loop_errors initial_locals_def
        intro!: length_filter_mono)
  also have "\<dots> = length (filter (\<lambda>p. ?R p \<and> ?D p) ?E) + length (filter (\<lambda>p. ?R p \<and> \<not> ?D p) ?E)"
    by (simp add: length_filter_conj_split)
  also have "\<dots> = diameter_filtered (final_locals self w a)
      + length (candidates (final_locals self w a))"
  proof -
    have "kept self w a = (\<lambda>p. ?R p \<and> \<not> ?D p)"
      by (simp add: fun_eq_iff kept_def)
    then show ?thesis
      by (simp add: final_locals_def users_loop_diameter users_loop_candidates
          initial_locals_def)
  qed
  finally show ?thesis .
qed

subsection \<open>Accounting of the filtering metrics\<close>

text \<open>
  C1. For every user list and configuration, the returned metrics satisfy
  \<open>total_users = invalid_coordinates + status_filtered + haversine_filtered +
  diameter_filtered + candidates\<close>: every user is counted in exactly one of these
  buckets. \<open>osrm_errors\<close> is not a bucket of its own: every user counted there is
  also counted in \<open>diameter_filtered\<close> or in \<open>candidates\<close>.
\<close>

theorem accounting_identity:
  fixes self w a n
  defines "m \<equiv> out_metrics (select_nearest_available_users self w a n)"
  shows "fm_total_users m =
           fm_invalid_coordinates m + fm_status_filtered m + fm_haversine_filtered m
             + fm_diameter_filtered m + fm_candidates m
         \<and> fm_osrm_errors m \<le> fm_diameter_filtered m + fm_candidates m"
proof -
  have "invalid_coordinates (final_locals self w a) + status_filtered (final_locals self w a)
      + haversine_filtered (final_locals self w a) + diameter_filtered (final_locals self w a)
      + length (candidates (final_locals self w a)) = length (get_all_users w)"
    unfolding final_locals_def
    by (simp add: users_loop_tally initial_locals_def)
  then show ?thesis
    using final_errors_bound [of self w a] by (simp add: m_def out_metrics_eq)
qed

theorem accounting_identity_witness:
  "out_metrics (select_nearest_available_users demo_task demo_world alert 2) =
     \<lparr>fm_total_users = 6, fm_invalid_coordinates = 1, fm_status_filtered = 1,
      fm_haversine_filtered = 0, fm_osrm_errors = 1, fm_diameter_filtered = 1,
      fm_candidates = 3, fm_selected = 2\<rparr>
   \<and> (6::nat) = 1 + 1 + 0 + 1 + 3 \<and> (1::nat) \<le> 1 + 3"
  using accounting_identity [of demo_task demo_world alert 2]
  unfolding out_metrics_eq demo_final_locals
  by (simp add: selected_entries_def sorted_candidates_def
      passes_availability_def get_available_def get_all_users_def
      demo_task_def demo_world_def demo_users_def user_a_def user_b_def user_c_def)

subsection \<open>Sorting\<close>

lemma loop_body_sort_by [simp]:
  "loop_body (self\<lparr>sort_by := x\<rparr>) w a i u s = loop_body self w a i u s"
  by (simp add: loop_body_def calculate_distance_def
      cong: option.case_cong prod.case_cong if_cong)

lemma users_loop_sort_by [simp]:
  "users_loop (self\<lparr>sort_by := x\<rparr>) w a i us s = users_loop self w a i us s"
  by (induction us arbitrary: i s) simp_all

lemma final_locals_sort_by [simp]:
  "final_locals (self\<lparr>sort_by := x\<rparr>) w a = final_locals self w a"
  by (simp add: final_locals_def)

lemma sorted_candidates_key:
  "sorted_candidates self cs = sort_key (ranking_key self) cs"
proof -
  have "cand_duration_s = (\<lambda>x. fst (snd (snd x)))" "cand_distance_km = (\<lambda>x. fst (snd x))"
    by (simp_all add: fun_eq_iff cand_duration_s_def cand_distance_km_def)
  then show ?thesis
    by (simp add: sorted_candidates_def ranking_key_def)
qed

lemma sorted_selected_entries:
  "sorted (map (ranking_key self) (selected_entries self n cs))"
proof -
  have "sorted_wrt (\<lambda>x y. ranking_key self x \<le> ranking_key self y) (sorted_candidates self cs)"
    using sorted_sort_key [of "ranking_key self" cs]
    by (simp add: sorted_candidates_key sorted_map)
  then have "sorted_wrt (\<lambda>x y. ranking_key self x \<le> ranking_key self y)
      (selected_entries self n cs)"
    unfolding selected_entries_def
    by (intro sorted_wrt_take sorted_wrt_filter)
  then show ?thesis
    by (simp add: sorted_map)
qed

text \<open>
  C2 (amended). The candidates are sorted ascending by \<open>duration_s\<close> when
  \<open>sort_by\<close> is \<open>'travel_time'\<close> and ascending by \<open>distance_km\<close> for every other
  value of \<open>sort_by\<close>. The sort is stable: candidates with equal keys keep their input
  order. \<open>selected\<close> follows the sorted order, so the keys of the selected candidates
  are non-decreasing.
\<close>

theorem sorted_by_configured_key:
  fixes self w a n
  defines "cs \<equiv> candidates (final_locals self w a)"
  shows "sorted (map (ranking_key self) (sorted_candidates self cs))
       \<and> (\<forall>v. filter (\<lambda>c. ranking_key self c = v) (sorted_candidates self cs) =
               filter (\<lambda>c. ranking_key self c = v) cs)
       \<and> out_selected (select_nearest_available_users self w a n) =
           map cand_user (selected_entries self n cs)
       \<and> sorted (map (ranking_key self) (selected_entries self n cs))"
proof -
  have user: "map cand_user = map fst"
    by (simp add: fun_eq_iff cand_user_def)
  show ?thesis
    by (simp add: sorted_candidates_key sort_key_stable sorted_selected_entries
        out_selected_eq cs_def user)
qed

lemma demo_task_fields:
  "selection_diameter_km demo_task = Some (Fin 10)"
  "user_profile_selection demo_task = Some ''driving''"
  "filter_only_available demo_task"
  "sort_by demo_task = ''distance''"
  "euclidian_filter_km demo_task = None"
  by (simp_all add: demo_task_def)

lemma demo_sorted_candidates:
  "sort_by self \<noteq> ''travel_time'' \<Longrightarrow>
   sorted_candidates self (candidates (final_locals demo_task demo_world alert)) =
     [(user_c, Fin 1, Fin 100, Some (reply 1000 100)),
      (user_b, Fin 2, Fin 600, Some (reply 2000 600)),
      (user_a, Fin 5, Fin 300, Some (reply 5000 300))]"
  by (simp add: demo_final_locals sorted_candidates_def)

lemma demo_selected_entries:
  "sort_by self \<noteq> ''travel_time'' \<Longrightarrow> filter_only_available self \<Longrightarrow>
   selected_entries self 2 (candidates (final_locals demo_task demo_world alert)) =
     [(user_b, Fin 2, Fin 600, Some (reply 2000 600)),
      (user_a, Fin 5, Fin 300, Some (reply 5000 300))]"
  by (simp add: selected_entries_def demo_sorted_candidates passes_availability_def
      get_available_def user_a_def user_b_def user_c_def)

theorem sorted_by_configured_key_witness:
  "sort_by demo_task = ''distance''
   \<and> sorted_candidates demo_task (candidates (final_locals demo_task demo_world alert)) =
       [(user_c, Fin 1, Fin 100, Some (reply 1000 100)),
        (user_b, Fin 2, Fin 600, Some (reply 2000 600)),
        (user_a, Fin 5, Fin 300, Some (reply 5000 300))]
   \<and> out_selected (select_nearest_available_users demo_task demo_world alert 2) =
       [user_b, user_a]
   \<and> sorted (map (ranking_key demo_task)
        (selected_entries demo_task 2 (candidates (final_locals demo_task demo_world alert))))"
  using sorted_by_configured_key [of demo_task demo_world alert 2]
  by (simp add: demo_sorted_candidates demo_selected_entries cand_user_def demo_task_fields)

text \<open>
  C2 as stated fails: with \<open>sort_by = 'duration'\<close>, a value other than
  \<open>'distance'\<close>, the candidates are ranked by distance and the durations of the
  selected users are 600 then 300.
\<close>

theorem sorted_by_duration_counterexample:
  "sort_by (demo_task\<lparr>sort_by := ''duration''\<rparr>) \<noteq> ''distance''
   \<and> out_selected (select_nearest_available_users (demo_task\<lparr>sort_by := ''duration''\<rparr>)
        demo_world alert 2) = [user_b, user_a]
   \<and> selected_entries (demo_task\<lparr>sort_by := ''duration''\<rparr>) 2
        (candidates (final_locals (demo_task\<lparr>sort_by := ''duration''\<rparr>) demo_world alert)) =
       [(user_b, Fin 2, Fin 600, Some (reply 2000 600)),
        (user_a, Fin 5, Fin 300, Some (reply 5000 300))]
   \<and> \<not> sorted (map cand_duration_s
        (selected_entries (demo_task\<lparr>sort_by := ''duration''\<rparr>) 2
           (candidates (final_locals (demo_task\<lparr>sort_by := ''duration''\<rparr>) demo_world alert))))"
  by (simp add: out_selected_eq demo_selected_entries cand_duration_s_def demo_task_fields)

subsection \<open>The diameter filter\<close>

lemma diameter_rejects_iff:
  "diameter_rejects self x = (\<exists>d. selection_diameter_km self = Some d \<and> halve d < x)"
  by (simp add: diameter_rejects_def split: option.splits)

lemma kept_eq:
  "kept self w a =
     (\<lambda>p. reaches_scoring self a (snd p) \<and> \<not> diameter_rejects self (fst (scored self w a p)))"
  by (simp add: fun_eq_iff kept_def)

lemma final_candidates:
  "candidates (final_locals self w a) =
     map (\<lambda>p. (snd p, scored self w a p))
       (filter (kept self w a) (enumerate 0 (get_all_users w)))"
  by (simp add: final_locals_def users_loop_candidates initial_locals_def)

text \<open>
  C5. With a diameter configured, a user that reaches the routing request is rejected by
  the diameter filter exactly when its route distance is strictly greater than half the
  diameter; a distance equal to half the diameter is kept. Without a diameter, nobody is
  rejected at this stage.
\<close>

theorem diameter_filter_strict:
  fixes self w a n
  defines "m \<equiv> out_metrics (select_nearest_available_users self w a n)"
    and "us \<equiv> enumerate 0 (get_all_users w)"
  shows "fm_diameter_filtered m =
           length (filter (\<lambda>p. reaches_scoring self a (snd p) \<and>
                     (\<exists>d. selection_diameter_km self = Some d
                          \<and> halve d < fst (scored self w a p))) us)
       \<and> candidates (final_locals self w a) =
           map (\<lambda>p. (snd p, scored self w a p))
             (filter (\<lambda>p. reaches_scoring self a (snd p) \<and>
                     \<not> (\<exists>d. selection_diameter_km self = Some d
                            \<and> halve d < fst (scored self w a p))) us)
       \<and> (selection_diameter_km self = None \<longrightarrow> fm_diameter_filtered m = 0)"
proof -
  have filtered: "diameter_filtered (final_locals self w a) =
      length (filter (\<lambda>p. reaches_scoring self a (snd p) \<and>
                (\<exists>d. selection_diameter_km self = Some d
                     \<and> halve d < fst (scored self w a p))) us)"
    by (simp add: us_def final_locals_def users_loop_diameter initial_locals_def
        diameter_rejects_iff)
  have cands: "candidates (final_locals self w a) =
      map (\<lambda>p. (snd p, scored self w a p))
        (filter (\<lambda>p. reaches_scoring self a (snd p) \<and>
                \<not> (\<exists>d. selection_diameter_km self = Some d
                       \<and> halve d < fst (scored self w a p))) us)"
    by (simp add: us_def final_candidates kept_eq diameter_rejects_iff)
  from filtered have none: "selection_diameter_km self = None \<longrightarrow>
      diameter_filtered (final_locals self w a) = 0"
    by simp
  from filtered cands none show ?thesis
    by (simp only: m_def out_metrics_eq filtering_metrics.simps simp_thms)
qed

theorem diameter_filter_strict_witness:
  "selection_diameter_km demo_task = Some (Fin 10)
   \<and> halve (Fin 10) = Fin 5
   \<and> candidates (final_locals demo_task demo_world alert) =
       [(user_a, Fin 5, Fin 300, Some (reply 5000 300)),
        (user_b, Fin 2, Fin 600, Some (reply 2000 600)),
        (user_c, Fin 1, Fin 100, Some (reply 1000 100))]
   \<and> fm_diameter_filtered
        (out_metrics (select_nearest_available_users demo_task demo_world alert 2)) = 1"
  using diameter_filter_strict [of demo_task demo_world alert 2]
  by (simp add: demo_task_fields demo_final_locals out_metrics_eq)

subsection \<open>Bookkeeping of the routing results\<close>

lemma scored_fails:
  "oracle_call_fails self w a p \<Longrightarrow> scored self w a p = (PInf, PInf, None)"
  by (auto simp: oracle_call_fails_def scored_def calculate_distance_def
      split: http_outcome.splits list.splits)

lemma scored_response_None:
  "(snd (snd (scored self w a p)) = None) = oracle_call_fails self w a p"
  by (auto simp: oracle_call_fails_def scored_def calculate_distance_def
      split: http_outcome.splits list.splits)

lemma null_id_key:
  "key_of idx (u\<lparr>uid := Some NoneKey\<rparr>) = NoneKey" "py_str NoneKey = ''None''"
  "key_of idx (u\<lparr>uid := None\<rparr>) = IntKey (int idx)"
  by (simp_all add: key_of_def py_str_def)

lemma demo_users_loaded:
  "get_all_users demo_world = [user_a, user_b, user_c, user_d, user_e, user_f]"
  by (simp add: get_all_users_def demo_world_def demo_users_def)

lemma demo_reaches:
  "reaches_scoring demo_task alert user_a" "reaches_scoring demo_task alert user_b"
  "reaches_scoring demo_task alert user_c" "\<not> reaches_scoring demo_task alert user_d"
  "\<not> reaches_scoring demo_task alert user_e" "reaches_scoring demo_task alert user_f"
  by (simp_all add: reaches_scoring_def passes_coordinates_def passes_status_def
      passes_prefilter_def demo_task_fields user_a_def user_b_def user_c_def user_d_def
      user_e_def user_f_def)

lemma demo_reached:
  "filter (\<lambda>p. reaches_scoring demo_task alert (snd p)) (enumerate 0 (get_all_users demo_world)) =
     [(0, user_a), (1, user_b), (2, user_c), (5, user_f)]"
  by (simp add: demo_users_loaded demo_reaches)

lemma demo_keys:
  "key_of i user_a = StrKey ''A''" "key_of i user_b = StrKey ''B''"
  "key_of i user_c = IntKey (int i)" "key_of i user_f = StrKey ''F''"
  by (simp_all add: key_of_def user_a_def user_b_def user_c_def user_f_def)

lemma demo_oracle:
  "\<not> oracle_call_fails demo_task demo_world alert (0, user_a)"
  "\<not> oracle_call_fails demo_task demo_world alert (Suc 0, user_b)"
  "\<not> oracle_call_fails demo_task demo_world alert (2, user_c)"
  "oracle_call_fails demo_task demo_world alert (5, user_f)"
  by (simp_all add: oracle_call_fails_def demo_world_def reply_def)

text \<open>
  C4 as stated fails: the request for user F fails, F has its sentinel in the result map,
  and the list of raw responses has no entry for F.
\<close>

theorem audit_outputs_counterexample:
  "reaches_scoring demo_task alert user_f
   \<and> oracle_call_fails demo_task demo_world alert (5, user_f)
   \<and> get_all_users demo_world ! 5 = user_f
   \<and> out_results_map (select_nearest_available_users demo_task demo_world alert 2)
        (StrKey ''F'') = Some (PInf, PInf)
   \<and> py_str (key_of 5 user_f) = ''F''
   \<and> ''F'' \<notin> fst ` set (out_response_values
        (select_nearest_available_users demo_task demo_world alert 2))"
  by (simp add: demo_reaches demo_users_loaded out_results_map_eq out_response_values_eq
      demo_final_locals demo_oracle demo_keys py_str_def)

subsection \<open>Contents of the result maps\<close>

lemma users_loop_results_map:
  "osrm_results_map (users_loop self w a i us s) =
     osrm_results_map s ++
       map_of (rev (map (result_entry self w a)
         (filter (\<lambda>p. reaches_scoring self a (snd p)) (enumerate i us))))"
proof (induction us arbitrary: i s)
  case Nil
  show ?case by simp
next
  case (Cons u us)
  show ?case
  proof (cases "reaches_scoring self a u")
    case True
    then have "osrm_results_map (loop_body self w a i u s) =
        osrm_results_map s ++ map_of [result_entry self w a (i, u)]"
      by (simp add: loop_body_results_map result_entry_def)
    with True Cons.IH [of "Suc i" "loop_body self w a i u s"] show ?thesis
      by (simp add: map_of_append map_add_assoc del: map_of.simps)
  next
    case False
    then have "osrm_results_map (loop_body self w a i u s) = osrm_results_map s"
      by (simp add: loop_body_results_map)
    with False Cons.IH [of "Suc i" "loop_body self w a i u s"] show ?thesis
      by simp
  qed
qed

lemma users_loop_times_map:
  "user_computation_times (users_loop self w a i us s) =
     user_computation_times s ++
       map_of (rev (map (time_entry w)
         (filter (\<lambda>p. reaches_scoring self a (snd p)) (enumerate i us))))"
proof (induction us arbitrary: i s)
  case Nil
  show ?case by simp
next
  case (Cons u us)
  show ?case
  proof (cases "reaches_scoring self a u")
    case True
    then have "user_computation_times (loop_body self w a i u s) =
        user_computation_times s ++ map_of [time_entry w (i, u)]"
      by (simp add: loop_body_times time_entry_def)
    with True Cons.IH [of "Suc i" "loop_body self w a i u s"] show ?thesis
      by (simp add: map_of_append map_add_assoc del: map_of.simps)
  next
    case False
    then have "user_computation_times (loop_body self w a i u s) = user_computation_times s"
      by (simp add: loop_body_times)
    with False Cons.IH [of "Suc i" "loop_body self w a i u s"] show ?thesis
      by simp
  qed
qed

lemma map_of_rev_last:
  "k \<notin> fst ` set ys \<Longrightarrow> map_of (rev (xs @ (k, v) # ys)) k = Some v"
proof -
  assume "k \<notin> fst ` set ys"
  then have "map_of (rev ys) k = None"
    by (simp add: map_of_eq_None_iff)
  then show ?thesis
    by (simp add: map_of_append map_add_def)
qed

lemma final_results_map:
  "osrm_results_map (final_locals self w a) =
     map_of (rev (map (result_entry self w a) (reached_users self w a)))"
  by (simp add: final_locals_def users_loop_results_map initial_locals_def reached_users_def)

lemma final_times_map:
  "user_computation_times (final_locals self w a) =
     map_of (rev (map (time_entry w) (reached_users self w a)))"
  by (simp add: final_locals_def users_loop_times_map initial_locals_def reached_users_def)

lemma final_results_last:
  assumes "reached_users self w a = before @ p # after"
    and "key_of (fst p) (snd p) \<notin> set (map (\<lambda>q. key_of (fst q) (snd q)) after)"
  shows "osrm_results_map (final_locals self w a) (key_of (fst p) (snd p)) =
     Some (fst (scored self w a p), fst (snd (scored self w a p)))"
proof -
  have "key_of (fst p) (snd p) \<notin> fst ` set (map (result_entry self w a) after)"
    using assms(2) by (auto simp: result_entry_def image_iff)
  from map_of_rev_last [OF this, of "map (result_entry self w a) before"]
  show ?thesis
    by (simp add: final_results_map assms(1) result_entry_def)
qed

lemma final_times_last:
  assumes "reached_users self w a = before @ p # after"
    and "key_of (fst p) (snd p) \<notin> set (map (\<lambda>q. key_of (fst q) (snd q)) after)"
  shows "user_computation_times (final_locals self w a) (key_of (fst p) (snd p)) =
     Some (user_elapsed w (fst p))"
proof -
  have "key_of (fst p) (snd p) \<notin> fst ` set (map (time_entry w) after)"
    using assms(2) by (auto simp: time_entry_def image_iff)
  from map_of_rev_last [OF this, of "map (time_entry w) before"]
  show ?thesis
    by (simp add: final_times_map assms(1) time_entry_def)
qed

text \<open>
  C4 (amended). The result map and the time map are built from the users that reach the
  routing request, in input order, a later user overwriting an earlier one with the same
  key: their keys are exactly the keys of these users, whether or not the diameter filter
  rejects the user later and whether or not the request failed. The entry under the key of
  such a user is its own route result and time when no later such user has the same key;
  in particular it is the sentinel \<open>(inf, inf)\<close> when its request failed. The list of raw
  responses gets an entry only for a non-empty response, so a user whose request failed has
  no entry there.
\<close>

theorem audit_outputs:
  fixes self w a n
  defines "r \<equiv> select_nearest_available_users self w a n"
    and "reached \<equiv> reached_users self w a"
  shows "out_results_map r = map_of (rev (map (result_entry self w a) reached))
       \<and> out_times r = map_of (rev (map (time_entry w) reached))
       \<and> dom (out_results_map r) = set (map (\<lambda>p. key_of (fst p) (snd p)) reached)
       \<and> dom (out_times r) = set (map (\<lambda>p. key_of (fst p) (snd p)) reached)
       \<and> (\<forall>before p after.
             reached = before @ p # after
             \<and> key_of (fst p) (snd p) \<notin> set (map (\<lambda>q. key_of (fst q) (snd q)) after) \<longrightarrow>
             out_results_map r (key_of (fst p) (snd p)) =
               Some (fst (scored self w a p), fst (snd (scored self w a p)))
             \<and> out_times r (key_of (fst p) (snd p)) = Some (user_elapsed w (fst p))
             \<and> (oracle_call_fails self w a p \<longrightarrow>
                  out_results_map r (key_of (fst p) (snd p)) = Some (PInf, PInf)))
       \<and> out_response_values r =
           concat (map (\<lambda>p. case snd (snd (scored self w a p)) of
                               None \<Rightarrow> []
                             | Some full_response \<Rightarrow>
                                 [(py_str (key_of (fst p) (snd p)), full_response)]) reached)
       \<and> (\<forall>p. (snd (snd (scored self w a p)) = None) = oracle_call_fails self w a p)"
proof -
  have maps: "out_results_map r = map_of (rev (map (result_entry self w a) reached))"
    "out_times r = map_of (rev (map (time_entry w) reached))"
    by (simp_all add: r_def reached_def out_results_map_eq out_times_eq final_results_map
        final_times_map)
  have doms: "dom (out_results_map r) = set (map (\<lambda>p. key_of (fst p) (snd p)) reached)"
    "dom (out_times r) = set (map (\<lambda>p. key_of (fst p) (snd p)) reached)"
    by (simp_all add: r_def reached_def reached_users_def out_results_map_eq out_times_eq
        final_locals_def users_loop_results_dom users_loop_times_dom initial_locals_def)
  have last: "\<forall>before p after.
             reached = before @ p # after
             \<and> key_of (fst p) (snd p) \<notin> set (map (\<lambda>q. key_of (fst q) (snd q)) after) \<longrightarrow>
             out_results_map r (key_of (fst p) (snd p)) =
               Some (fst (scored self w a p), fst (snd (scored self w a p)))
             \<and> out_times r (key_of (fst p) (snd p)) = Some (user_elapsed w (fst p))
             \<and> (oracle_call_fails self w a p \<longrightarrow>
                  out_results_map r (key_of (fst p) (snd p)) = Some (PInf, PInf))"
  proof (intro allI impI, elim conjE)
    fix before p after
    assume split: "reached = before @ p # after"
      and fresh: "key_of (fst p) (snd p) \<notin> set (map (\<lambda>q. key_of (fst q) (snd q)) after)"
    have res: "out_results_map r (key_of (fst p) (snd p)) =
        Some (fst (scored self w a p), fst (snd (scored self w a p)))"
      using final_results_last [OF split [unfolded reached_def] fresh]
      by (simp add: r_def out_results_map_eq)
    have tim: "out_times r (key_of (fst p) (snd p)) = Some (user_elapsed w (fst p))"
      using final_times_last [OF split [unfolded reached_def] fresh]
      by (simp add: r_def out_times_eq)
    from res tim scored_fails [of self w a p]
    show "out_results_map r (key_of (fst p) (snd p)) =
        Some (fst (scored self w a p), fst (snd (scored self w a p)))
      \<and> out_times r (key_of (fst p) (snd p)) = Some (user_elapsed w (fst p))
      \<and> (oracle_call_fails self w a p \<longrightarrow>
           out_results_map r (key_of (fst p) (snd p)) = Some (PInf, PInf))"
      by simp
  qed
  have resp: "out_response_values r =
           concat (map (\<lambda>p. case snd (snd (scored self w a p)) of
                               None \<Rightarrow> []
                             | Some full_response \<Rightarrow>
                                 [(py_str (key_of (fst p) (snd p)), full_response)]) reached)"
    by (simp add: r_def reached_def reached_users_def out_response_values_eq final_locals_def
        users_loop_response_values initial_locals_def)
  have none: "\<forall>p. (snd (snd (scored self w a p)) = None) = oracle_call_fails self w a p"
    by (simp add: scored_response_None)
  from maps doms last resp none show ?thesis
    by blast
qed

theorem audit_outputs_witness:
  "reached_users demo_task demo_world alert =
     [(0, user_a), (1, user_b), (2, user_c)] @ (5, user_f) # []
   \<and> oracle_call_fails demo_task demo_world alert (5, user_f)
   \<and> out_results_map (select_nearest_available_users demo_task demo_world alert 2)
        (StrKey ''F'') = Some (PInf, PInf)
   \<and> out_times (select_nearest_available_users demo_task demo_world alert 2)
        (StrKey ''F'') = Some (1 / 4)
   \<and> dom (out_results_map (select_nearest_available_users demo_task demo_world alert 2)) =
        {StrKey ''A'', StrKey ''B'', IntKey 2, StrKey ''F''}
   \<and> dom (out_times (select_nearest_available_users demo_task demo_world alert 2)) =
        {StrKey ''A'', StrKey ''B'', IntKey 2, StrKey ''F''}
   \<and> out_response_values (select_nearest_available_users demo_task demo_world alert 2) =
        [(''A'', reply 5000 300), (''B'', reply 2000 600), (''2'', reply 1000 100)]"
proof -
  have split: "reached_users demo_task demo_world alert =
      [(0, user_a), (1, user_b), (2, user_c)] @ (5, user_f) # []"
    by (simp add: reached_users_def demo_reached)
  have fresh: "key_of (fst (5::nat, user_f)) (snd (5::nat, user_f)) \<notin>
      set (map (\<lambda>q. key_of (fst q) (snd q)) [])"
    by simp
  note t = audit_outputs [of demo_task demo_world alert 2]
  note last = t [THEN conjunct2, THEN conjunct2, THEN conjunct2, THEN conjunct2,
      THEN conjunct1, rule_format, OF conjI, OF split fresh]
  have elapsed: "user_elapsed demo_world 5 = 1 / 4"
    by (simp add: demo_world_def)
  from last demo_oracle(4) scored_fails [OF demo_oracle(4)] elapsed have f:
    "out_results_map (select_nearest_available_users demo_task demo_world alert 2)
        (StrKey ''F'') = Some (PInf, PInf)"
    "out_times (select_nearest_available_users demo_task demo_world alert 2)
        (StrKey ''F'') = Some (1 / 4)"
    by (simp_all add: demo_keys)
  from t [THEN conjunct2, THEN conjunct2, THEN conjunct1]
    t [THEN conjunct2, THEN conjunct2, THEN conjunct2, THEN conjunct1]
  have doms:
    "dom (out_results_map (select_nearest_available_users demo_task demo_world alert 2)) =
        {StrKey ''A'', StrKey ''B'', IntKey 2, StrKey ''F''}"
    "dom (out_times (select_nearest_available_users demo_task demo_world alert 2)) =
        {StrKey ''A'', StrKey ''B'', IntKey 2, StrKey ''F''}"
    by (simp_all add: split demo_keys)
  have resp: "out_response_values (select_nearest_available_users demo_task demo_world alert 2) =
        [(''A'', reply 5000 300), (''B'', reply 2000 600), (''2'', reply 1000 100)]"
    by (simp add: out_response_values_eq demo_final_locals)
  from split demo_oracle(4) f doms resp show ?thesis
    by simp
qed

subsection \<open>Unreachable candidates\<close>











lemma reaches_scoring_diameter [simp]:
  "reaches_scoring (self\<lparr>selection_diameter_km := d\<rparr>) a u = reaches_scoring self a u"
  by (simp add: reaches_scoring_def passes_status_def passes_prefilter_def)





subsection \<open>Availability and truncation\<close>

lemma get_all_users_with_availability:
  "get_all_users (with_availability g w) = map (\<lambda>u. u\<lparr>available := g u\<rparr>) (get_all_users w)"
  by (simp add: get_all_users_def with_availability_def split: option.splits)

lemma location_available [simp]: "location (u\<lparr>available := x\<rparr>) = location u"
  by (simp add: location_def)

lemma scored_with_availability [simp]:
  "scored self (with_availability g w) a (i, u\<lparr>available := x\<rparr>) = scored self w a (i, u)"
  by (simp add: scored_def calculate_distance_def with_availability_def)

lemma passes_available [simp]:
  "passes_coordinates (u\<lparr>available := x\<rparr>) = passes_coordinates u"
  "passes_status self (u\<lparr>available := x\<rparr>) = passes_status self u"
  "passes_prefilter self a (u\<lparr>available := x\<rparr>) = passes_prefilter self a u"
  "reaches_scoring self a (u\<lparr>available := x\<rparr>) = reaches_scoring self a u"
  by (simp_all add: reaches_scoring_def passes_coordinates_def passes_status_def
      passes_prefilter_def cong: option.case_cong)

lemma length_filter_enumerate_map:
  "(\<And>i u. P (i, f u) = Q (i, u)) \<Longrightarrow>
   length (filter P (enumerate i (map f us))) = length (filter Q (enumerate i us))"
  by (induction us arbitrary: i) simp_all

lemma final_locals_with_availability:
  fixes self w a g
  defines "s' \<equiv> final_locals self (with_availability g w) a"
    and "s \<equiv> final_locals self w a"
  shows "invalid_coordinates s' = invalid_coordinates s"
    and "status_filtered s' = status_filtered s"
    and "haversine_filtered s' = haversine_filtered s"
    and "diameter_filtered s' = diameter_filtered s"
    and "osrm_errors s' = osrm_errors s"
    and "length (candidates s') = length (candidates s)"
proof -
  show "invalid_coordinates s' = invalid_coordinates s"
    unfolding s'_def s_def final_locals_def get_all_users_with_availability users_loop_invalid
    by (simp, rule length_filter_enumerate_map) simp
  show "status_filtered s' = status_filtered s"
    unfolding s'_def s_def final_locals_def get_all_users_with_availability users_loop_status
    by (simp, rule length_filter_enumerate_map) simp
  show "haversine_filtered s' = haversine_filtered s"
    unfolding s'_def s_def final_locals_def get_all_users_with_availability
      users_loop_haversine
    by (simp, rule length_filter_enumerate_map) simp
  show "diameter_filtered s' = diameter_filtered s"
    unfolding s'_def s_def final_locals_def get_all_users_with_availability users_loop_diameter
    by (simp, rule length_filter_enumerate_map) simp
  show "osrm_errors s' = osrm_errors s"
    unfolding s'_def s_def final_locals_def get_all_users_with_availability users_loop_errors
    by (simp, rule length_filter_enumerate_map) simp
  show "length (candidates s') = length (candidates s)"
    unfolding s'_def s_def final_locals_def get_all_users_with_availability
      users_loop_candidates
    by (simp, rule length_filter_enumerate_map) (simp add: kept_def)
qed

lemma metrics_with_availability:
  "(out_metrics (select_nearest_available_users self (with_availability g w) a n))
      \<lparr>fm_selected := 0\<rparr> =
   (out_metrics (select_nearest_available_users self w a n))\<lparr>fm_selected := 0\<rparr>"
  by (simp add: out_metrics_eq final_locals_with_availability
      get_all_users_with_availability)

lemma length_filter_sorted_candidates:
  "length (filter P (sorted_candidates self cs)) = length (filter P cs)"
  by (simp add: sorted_candidates_key filter_sort)

lemma length_selected_entries:
  "length (selected_entries self n cs) =
     min (nat (max 1 n)) (length (filter (passes_availability self) cs))"
  by (simp add: selected_entries_def length_filter_sorted_candidates)

text \<open>
  C6. For a positive \<open>num_users\<close>, \<open>selected\<close> has at most \<open>num_users\<close> entries, and
  exactly \<open>num_users\<close> when that many candidates pass the availability test. With
  \<open>filter_only_available\<close> false nobody is skipped: \<open>selected\<close> is the start of the sorted
  list. The candidates skipped for availability stay in the \<open>candidates\<close> count, and no
  metric other than \<open>selected\<close> depends on the availability flags.
\<close>

theorem selection_bounded:
  fixes self w a n
  defines "r \<equiv> select_nearest_available_users self w a n"
    and "cs \<equiv> candidates (final_locals self w a)"
  assumes positive: "0 < n"
  shows "int (length (out_selected r)) \<le> n
       \<and> (n \<le> int (length (filter (passes_availability self) cs)) \<longrightarrow>
            int (length (out_selected r)) = n)
       \<and> (\<not> filter_only_available self \<longrightarrow>
            out_selected r = map cand_user (take (nat n) (sorted_candidates self cs)))
       \<and> fm_candidates (out_metrics r) = length cs
       \<and> fm_selected (out_metrics r) = length (out_selected r)
       \<and> (\<forall>g. (out_metrics (select_nearest_available_users self (with_availability g w) a n))
                  \<lparr>fm_selected := 0\<rparr> = (out_metrics r)\<lparr>fm_selected := 0\<rparr>)"
proof -
  from positive have n: "nat (max 1 n) = nat n"
    by simp
  have len: "length (out_selected r) =
      min (nat n) (length (filter (passes_availability self) cs))"
    by (simp add: r_def cs_def out_selected_eq length_selected_entries n)
  have user: "map cand_user = map fst"
    by (simp add: fun_eq_iff cand_user_def)
  have all: "\<not> filter_only_available self \<longrightarrow>
      out_selected r = map cand_user (take (nat n) (sorted_candidates self cs))"
    by (simp add: r_def cs_def out_selected_eq selected_entries_def n user
        passes_availability_def)
  from len positive have "int (length (out_selected r)) \<le> n"
    by simp
  moreover from len positive
  have "n \<le> int (length (filter (passes_availability self) cs)) \<longrightarrow>
      int (length (out_selected r)) = n"
    by simp
  moreover have "fm_candidates (out_metrics r) = length cs"
    "fm_selected (out_metrics r) = length (out_selected r)"
    by (simp_all add: r_def cs_def out_metrics_eq out_selected_eq)
  moreover have "\<forall>g. (out_metrics (select_nearest_available_users self (with_availability g w) a n))
                  \<lparr>fm_selected := 0\<rparr> = (out_metrics r)\<lparr>fm_selected := 0\<rparr>"
    by (simp add: r_def metrics_with_availability)
  ultimately show ?thesis
    using all by blast
qed

lemma loop_body_filter_only_available [simp]:
  "loop_body (self\<lparr>filter_only_available := x\<rparr>) w a i u s = loop_body self w a i u s"
  by (simp add: loop_body_def calculate_distance_def
      cong: option.case_cong prod.case_cong if_cong)

lemma users_loop_filter_only_available [simp]:
  "users_loop (self\<lparr>filter_only_available := x\<rparr>) w a i us s = users_loop self w a i us s"
  by (induction us arbitrary: i s) simp_all

lemma demo_final_locals_any_availability:
  "final_locals demo_task_any_availability demo_world alert =
     final_locals demo_task demo_world alert"
  by (simp add: final_locals_def demo_task_any_availability_def)

lemma demo_any_availability_fields:
  "\<not> filter_only_available demo_task_any_availability"
  "sort_by demo_task_any_availability = ''distance''"
  by (simp_all add: demo_task_any_availability_def demo_task_fields)

lemma demo_available_candidates:
  "filter (passes_availability demo_task)
     (candidates (final_locals demo_task demo_world alert)) =
     [(user_a, Fin 5, Fin 300, Some (reply 5000 300)),
      (user_b, Fin 2, Fin 600, Some (reply 2000 600))]"
  by (simp add: demo_final_locals passes_availability_def get_available_def demo_task_fields
      user_a_def user_b_def user_c_def)

theorem selection_bounded_witness:
  "(0::int) < 2
   \<and> (2::int) \<le> int (length (filter (passes_availability demo_task)
        (candidates (final_locals demo_task demo_world alert))))
   \<and> out_selected (select_nearest_available_users demo_task demo_world alert 2) =
        [user_b, user_a]
   \<and> int (length (out_selected
        (select_nearest_available_users demo_task demo_world alert 2))) = 2
   \<and> fm_candidates (out_metrics
        (select_nearest_available_users demo_task demo_world alert 2)) = 3
   \<and> fm_selected (out_metrics
        (select_nearest_available_users demo_task demo_world alert 2)) = 2
   \<and> (out_metrics (select_nearest_available_users demo_task
          (with_availability (\<lambda>u. Some False) demo_world) alert 2))\<lparr>fm_selected := 0\<rparr> =
       \<lparr>fm_total_users = 6, fm_invalid_coordinates = 1, fm_status_filtered = 1,
        fm_haversine_filtered = 0, fm_osrm_errors = 1, fm_diameter_filtered = 1,
        fm_candidates = 3, fm_selected = 0\<rparr>
   \<and> \<not> filter_only_available demo_task_any_availability
   \<and> out_selected (select_nearest_available_users demo_task_any_availability
        demo_world alert 2) = [user_c, user_b]"
proof -
  have pos: "(0::int) < 2" by simp
  note strict = selection_bounded [OF pos, of demo_task demo_world alert]
  note lax = selection_bounded [OF pos, of demo_task_any_availability demo_world alert]
  have avail: "(2::int) \<le> int (length (filter (passes_availability demo_task)
        (candidates (final_locals demo_task demo_world alert))))"
    by (simp add: demo_available_candidates)
  from strict [THEN conjunct2, THEN conjunct1, rule_format, OF avail]
  have len: "int (length (out_selected
        (select_nearest_available_users demo_task demo_world alert 2))) = 2" .
  from strict [THEN conjunct2, THEN conjunct2, THEN conjunct2, THEN conjunct2,
      THEN conjunct2, rule_format, of "\<lambda>u. Some False"]
  have inv: "(out_metrics (select_nearest_available_users demo_task
          (with_availability (\<lambda>u. Some False) demo_world) alert 2))\<lparr>fm_selected := 0\<rparr> =
       \<lparr>fm_total_users = 6, fm_invalid_coordinates = 1, fm_status_filtered = 1,
        fm_haversine_filtered = 0, fm_osrm_errors = 1, fm_diameter_filtered = 1,
        fm_candidates = 3, fm_selected = 0\<rparr>"
    by (simp add: out_metrics_eq demo_final_locals demo_users_loaded)
  from lax [THEN conjunct2, THEN conjunct2, THEN conjunct1, rule_format,
      OF demo_any_availability_fields(1)]
  have all: "out_selected (select_nearest_available_users demo_task_any_availability
        demo_world alert 2) = [user_c, user_b]"
    by (simp add: demo_final_locals_any_availability demo_sorted_candidates
        demo_any_availability_fields cand_user_def)
  have cnt: "fm_candidates (out_metrics
        (select_nearest_available_users demo_task demo_world alert 2)) = 3"
    "fm_selected (out_metrics
        (select_nearest_available_users demo_task demo_world alert 2)) = 2"
    using strict len by (simp_all add: demo_final_locals)
  from avail len inv all cnt show ?thesis
    by (simp add: demo_selected demo_any_availability_fields)
qed

subsection \<open>A request for no user\<close>

text \<open>
  C10. With \<open>num_users = 0\<close> (or negative) and at least one candidate that passes the
  availability test, \<open>selected\<close> has exactly one entry, the first such candidate of the
  sorted list: the length is tested only after the append. The bound
  \<open>len(selected) <= num_users\<close> therefore fails there, and holds only for a positive
  \<open>num_users\<close>.
\<close>

theorem zero_requested_selects_one:
  fixes self w a n
  defines "r \<equiv> select_nearest_available_users self w a n"
    and "cs \<equiv> candidates (final_locals self w a)"
  assumes none: "n \<le> 0"
    and some: "filter (passes_availability self) cs \<noteq> []"
  shows "length (out_selected r) = 1
       \<and> out_selected r =
           map cand_user (take 1 (filter (passes_availability self) (sorted_candidates self cs)))
       \<and> \<not> int (length (out_selected r)) \<le> n"
proof -
  from none have n: "nat (max 1 n) = 1"
    by simp
  from some have "Suc 0 \<le> length (filter (passes_availability self) cs)"
    by (cases "filter (passes_availability self) cs") simp_all
  then have len: "length (out_selected r) = 1"
    by (simp add: r_def cs_def out_selected_eq length_selected_entries n min_def)
  have user: "map cand_user = map fst"
    by (simp add: fun_eq_iff cand_user_def)
  have "out_selected r =
      map cand_user (take 1 (filter (passes_availability self) (sorted_candidates self cs)))"
    by (simp add: r_def cs_def out_selected_eq selected_entries_def n user)
  with len none show ?thesis
    by simp
qed

theorem zero_requested_selects_one_witness:
  "(0::int) \<le> 0
   \<and> filter (passes_availability demo_task)
        (candidates (final_locals demo_task demo_world alert)) =
       [(user_a, Fin 5, Fin 300, Some (reply 5000 300)),
        (user_b, Fin 2, Fin 600, Some (reply 2000 600))]
   \<and> out_selected (select_nearest_available_users demo_task demo_world alert 0) = [user_b]
   \<and> length (out_selected (select_nearest_available_users demo_task demo_world alert 0)) = 1"
proof -
  have some: "filter (passes_availability demo_task)
      (candidates (final_locals demo_task demo_world alert)) \<noteq> []"
    by (simp add: demo_available_candidates)
  have "(0::int) \<le> 0" by simp
  from zero_requested_selects_one [OF this some]
  show ?thesis
    by (simp add: demo_available_candidates demo_sorted_candidates demo_task_fields
        passes_availability_def get_available_def cand_user_def user_b_def user_c_def)
qed

subsection \<open>An empty pool\<close>

text \<open>
  C7. With no user loaded (an empty file, or a file that cannot be loaded),
  \<open>select_nearest_available_users\<close> returns the empty \<open>selected\<close> list, empty maps, an empty
  list of raw responses and metrics that are all zero. It returns: no step of the run
  raises on an empty pool.
\<close>

theorem empty_pool:
  assumes "get_all_users w = []"
  shows "select_nearest_available_users self w a n =
     ([], Map.empty, [], total_elapsed w, Map.empty,
      \<lparr>fm_total_users = 0, fm_invalid_coordinates = 0, fm_status_filtered = 0,
       fm_haversine_filtered = 0, fm_osrm_errors = 0, fm_diameter_filtered = 0,
       fm_candidates = 0, fm_selected = 0\<rparr>)"
  using assms
  by (simp add: select_nearest_available_users_def initial_locals_def sorted_candidates_def
      Let_def)

theorem empty_pool_witness:
  "get_all_users demo_world_unloaded = [] \<and> get_all_users demo_world_empty = []
   \<and> select_nearest_available_users demo_task demo_world_unloaded alert 2 =
     ([], Map.empty, [], 2, Map.empty,
      \<lparr>fm_total_users = 0, fm_invalid_coordinates = 0, fm_status_filtered = 0,
       fm_haversine_filtered = 0, fm_osrm_errors = 0, fm_diameter_filtered = 0,
       fm_candidates = 0, fm_selected = 0\<rparr>)
   \<and> select_nearest_available_users demo_task demo_world_empty alert 2 =
     ([], Map.empty, [], 2, Map.empty,
      \<lparr>fm_total_users = 0, fm_invalid_coordinates = 0, fm_status_filtered = 0,
       fm_haversine_filtered = 0, fm_osrm_errors = 0, fm_diameter_filtered = 0,
       fm_candidates = 0, fm_selected = 0\<rparr>)"
proof -
  have un: "get_all_users demo_world_unloaded = []"
    and em: "get_all_users demo_world_empty = []"
    by (simp_all add: get_all_users_def demo_world_unloaded_def demo_world_empty_def)
  have t: "total_elapsed demo_world_unloaded = 2" "total_elapsed demo_world_empty = 2"
    by (simp_all add: demo_world_unloaded_def demo_world_empty_def demo_world_def)
  from empty_pool [OF un, of demo_task alert 2] empty_pool [OF em, of demo_task alert 2] un em t
  show ?thesis
    by simp
qed

subsection \<open>An unset profile\<close>








end
